theory Spec2Isabelle
  imports Complex_Main
begin

section \<open>The generic feed model read by \<open>amazon_rss.go\<close>\<close>

text \<open>
  Go pointers that may be nil are options: \<open>None\<close> is nil, \<open>Some v\<close> a pointer to \<open>v\<close>
  (the pointer held by the envelope, whose identity matters, is an address: see there).
  Reading a field through a nil pointer panics; the panic is the value
  \<open>Inl NilPointerDereference\<close> of the functions below. Go strings are byte sequences,
  here \<open>string\<close>; \<open>len(s) > 0\<close> is \<open>0 < length s\<close>.
\<close>

datatype fault = NilPointerDereference

text \<open>
  Modelled from the spec: Go's \<open>time.Time\<close>, of which the code only passes values to
  \<open>anyTimeFormat\<close>. A time is its seconds since January 1, year 1, 00:00:00 UTC, its
  nanoseconds within the second and the offset of its zone; the zero value is absent, and
  \<open>IsZero\<close> looks at the instant only.
\<close>

record Time =
  sec :: int
  nsec :: int
  offset :: int

definition IsZero :: "Time \<Rightarrow> bool" where
  "IsZero t \<longleftrightarrow> sec t = 0 \<and> nsec t = 0"

text \<open>
  \<open>time.RFC1123Z\<close>, the layout "RFC 1123 with numeric zone" of Go's standard library.
  The formatting itself (\<open>t.Format(layout)\<close>) belongs to the standard library: every
  function below takes it as its first argument, and every theorem holds for any formatter.
\<close>

definition RFC1123Z :: string where
  "RFC1123Z = ''Mon, 02 Jan 2006 15:04:05 -0700''"

type_synonym formatter = "Time \<Rightarrow> string \<Rightarrow> string"

text \<open>
  Modelled from the spec: the types \<open>Link\<close>, \<open>Author\<close>, \<open>Enclosure\<close>, \<open>Image\<close>, \<open>Item\<close>
  and \<open>Feed\<close> of the generic feed model, declared outside \<open>amazon_rss.go\<close>, with the
  fields the spec lists (section 3). \<open>newAmazonRssItem\<close> takes a \<open>*Item\<close> and the loop of
  \<open>AmazonRssFeed\<close> passes it the elements of \<open>Items\<close>, so \<open>Items\<close> is a sequence of
  pointers; \<open>Link\<close>, \<open>Source\<close>, \<open>Author\<close>, \<open>Enclosure\<close> and \<open>Image\<close> are compared with
  nil or read through, so they are pointers too.
\<close>

record Link =
  Href :: string

record Author =
  Name :: string
  Email :: string

record Enclosure =
  Url :: string
  Type :: string
  Length :: string

record Image =
  Url :: string
  Title :: string
  Link :: string
  Width :: int
  Height :: int

record Item =
  Title :: string
  Link :: "Link option"
  Description :: string
  Id :: string
  Content :: string
  Source :: "Link option"
  Author :: "Author option"
  Enclosure :: "Enclosure option"
  Created :: Time
  Updated :: Time

record Feed =
  Title :: string
  Link :: "Link option"
  Description :: string
  Author :: "Author option"
  Copyright :: string
  Created :: Time
  Updated :: Time
  Image :: "Image option"
  Items :: "Item option list"

text \<open>
  Modelled from the spec: the helper \<open>anyTimeFormat(format, times...)\<close>, declared outside
  \<open>amazon_rss.go\<close> (section 4.3): the first non-zero candidate, formatted in the pattern;
  the empty string if all candidates are zero-valued.
\<close>

fun anyTimeFormat :: "formatter \<Rightarrow> string \<Rightarrow> Time list \<Rightarrow> string" where
  "anyTimeFormat Format format [] = ''''"
| "anyTimeFormat Format format (t # rest) =
     (if \<not> IsZero t then Format t format else anyTimeFormat Format format rest)"

section \<open>The types of the dialect\<close>

text \<open>
  Modelled from the spec: \<open>RssImage\<close>, \<open>RssContent\<close> and \<open>RssEnclosure\<close>, declared
  outside \<open>amazon_rss.go\<close>, with the fields the struct literals of \<open>amazon_rss.go\<close> write.
  \<open>RssTextInput\<close> is declared outside too; the code never builds or reads one, and
  the spec does not list its fields: it is a struct whose fields are not modelled.
\<close>

record RssImage =
  Url :: string
  Title :: string
  Link :: string
  Width :: int
  Height :: int

record RssContent =
  Content :: string

record RssEnclosure =
  Url :: string
  Type :: string
  Length :: string

datatype RssTextInput = RssTextInput

text \<open>
  The structs of \<open>amazon_rss.go\<close>. The field \<open>XMLName\<close> of each only carries the element
  name for the serializer and is never assigned: it is left out. \<open>float32\<close> is \<open>real\<close>
  (the only value written, 1.0, is a float32 exactly). The pointers in \<open>Items\<close> and
  \<open>Products\<close> come from \<open>append\<close> of freshly built values only, so these two are lists
  of values.
\<close>

record AmazonProduct =
  URL :: string
  Headline :: string
  Award :: string
  Summary :: string

record AmazonRssItem =
  Title :: string
  Link :: string
  Description :: string
  Content :: "RssContent option"
  Author :: string
  Category :: string
  Comments :: string
  Enclosure :: "RssEnclosure option"
  Guid :: string
  PubDate :: string
  Source :: string
  Creator :: string
  HeroImage :: string
  IntroText :: string
  IndexContent :: string
  Products :: "AmazonProduct list"

record AmazonRssFeed =
  Title :: string
  Link :: string
  Description :: string
  Language :: string
  Copyright :: string
  ManagingEditor :: string
  WebMaster :: string
  PubDate :: string
  LastBuildDate :: string
  Category :: string
  Generator :: string
  Docs :: string
  Cloud :: string
  Ttl :: int
  Rating :: string
  SkipHours :: string
  SkipDays :: string
  AmznRssVersion :: real
  Image :: "RssImage option"
  TextInput :: "RssTextInput option"
  Items :: "AmazonRssItem list"

text \<open>
  The envelope holds a \<open>*AmazonRssFeed\<close>, and holding a channel by reference is not
  holding a copy of it. So here the pointer is an address into a store of channels: holding
  the channel by reference is holding its address, a copy is another address, and a write
  to the channel is a change of the store. An address below the length of the store is
  allocated; \<open>alloc\<close> is the \<open>&AmazonRssFeed{...}\<close> of the source.
\<close>

type_synonym addr = nat

type_synonym store = "AmazonRssFeed list"

definition deref :: "store \<Rightarrow> addr \<Rightarrow> AmazonRssFeed option" where
  "deref s a = (if a < length s then Some (s ! a) else None)"

definition alloc :: "store \<Rightarrow> AmazonRssFeed \<Rightarrow> addr \<times> store" where
  "alloc s channel = (length s, s @ [channel])"

record AmazonRssFeedXml =
  Version :: string
  ContentNamespace :: string
  DublinCoreNamespace :: string
  AmazonNamespace :: string
  Channel :: "addr option"

record AmazonRss =
  Feed :: "Feed option"

section \<open>The mapping\<close>

text \<open>
  \<open>newAmazonRssItem\<close>: the struct literal (fields it does not name hold their zero
  values), then the four conditional assignments in the order of the source. The literal
  reads \<open>i.Title\<close> and \<open>i.Link.Href\<close>, which panic when \<open>i\<close> or \<open>i.Link\<close> is nil.
\<close>

definition newAmazonRssItem :: "formatter \<Rightarrow> Item option \<Rightarrow> fault + AmazonRssItem" where
  "newAmazonRssItem Format p =
     (case p of
        None \<Rightarrow> Inl NilPointerDereference
      | Some i \<Rightarrow>
          (case Item.Link i of
             None \<Rightarrow> Inl NilPointerDereference
           | Some l \<Rightarrow>
               (let item = \<lparr>AmazonRssItem.Title = Item.Title i,
                             Link = Href l,
                             Description = Item.Description i,
                             Content = None,
                             Author = '''',
                             Category = '''',
                             Comments = '''',
                             Enclosure = None,
                             Guid = Item.Id i,
                             PubDate = anyTimeFormat Format RFC1123Z [Item.Created i, Item.Updated i],
                             Source = '''',
                             Creator = '''',
                             HeroImage = ''POST THUMBNAIL (Prefer 2x1 at least 1000px wide)'',
                             IntroText = ''META DESCRIPTION'',
                             IndexContent = ''True'',
                             Products = []\<rparr>;
                    item = (if 0 < length (Item.Content i)
                            then item\<lparr>AmazonRssItem.Content :=
                                   Some \<lparr>RssContent.Content = Item.Content i\<rparr>\<rparr>
                            else item);
                    item = (case Item.Source i of
                              Some s \<Rightarrow> item\<lparr>AmazonRssItem.Source := Href s\<rparr>
                            | None \<Rightarrow> item);
                    item = (case Item.Enclosure i of
                              Some e \<Rightarrow>
                                (if Enclosure.Type e \<noteq> '''' \<and> Enclosure.Length e \<noteq> ''''
                                 then item\<lparr>AmazonRssItem.Enclosure :=
                                        Some \<lparr>RssEnclosure.Url = Enclosure.Url e,
                                              Type = Enclosure.Type e,
                                              Length = Enclosure.Length e\<rparr>\<rparr>
                                 else item)
                            | None \<Rightarrow> item);
                    item = (case Item.Author i of
                              Some a \<Rightarrow> item\<lparr>AmazonRssItem.Author := Name a\<rparr>
                            | None \<Rightarrow> item)
                in Inr item)))"

text \<open>
  The loop of \<open>AmazonRssFeed\<close> over \<open>r.Items\<close>: each item is mapped and appended to
  \<open>channel.Items\<close>; a panic in \<open>newAmazonRssItem\<close> ends the call.
\<close>

fun appendItems :: "formatter \<Rightarrow> AmazonRssFeed \<Rightarrow> Item option list \<Rightarrow> fault + AmazonRssFeed" where
  "appendItems Format channel [] = Inr channel"
| "appendItems Format channel (i # rest) =
     (case newAmazonRssItem Format i of
        Inl e \<Rightarrow> Inl e
      | Inr item \<Rightarrow>
          appendItems Format
            (channel\<lparr>AmazonRssFeed.Items := AmazonRssFeed.Items channel @ [item]\<rparr>) rest)"

text \<open>
  \<open>(r *AmazonRss) AmazonRssFeed()\<close>. The receiver embeds a \<open>*Feed\<close>: \<open>r.Created\<close> panics
  when \<open>r\<close> or the embedded pointer is nil, and \<open>r.Link.Href\<close> when \<open>r.Link\<close> is nil.
  \<open>fmt.Sprintf("%s (%s)", email, name)\<close> is the concatenation written out.
\<close>

definition AmazonRssFeed :: "formatter \<Rightarrow> AmazonRss option \<Rightarrow> fault + AmazonRssFeed" where
  "AmazonRssFeed Format p =
     (case p of
        None \<Rightarrow> Inl NilPointerDereference
      | Some r \<Rightarrow>
          (case AmazonRss.Feed r of
             None \<Rightarrow> Inl NilPointerDereference
           | Some f \<Rightarrow>
               (let pub = anyTimeFormat Format RFC1123Z [Feed.Created f, Feed.Updated f];
                    build = anyTimeFormat Format RFC1123Z [Feed.Updated f];
                    author = '''';
                    author = (case Feed.Author f of
                                Some a \<Rightarrow>
                                  (let author = Email a
                                   in if 0 < length (Name a)
                                      then Email a @ '' ('' @ Name a @ '')''
                                      else author)
                              | None \<Rightarrow> author);
                    image = (case Feed.Image f of
                               Some im \<Rightarrow>
                                 Some \<lparr>RssImage.Url = Image.Url im,
                                       Title = Image.Title im,
                                       Link = Image.Link im,
                                       Width = Image.Width im,
                                       Height = Image.Height im\<rparr>
                             | None \<Rightarrow> None)
                in case Feed.Link f of
                     None \<Rightarrow> Inl NilPointerDereference
                   | Some l \<Rightarrow>
                       appendItems Format
                         \<lparr>AmazonRssFeed.Title = Feed.Title f,
                          Link = Href l,
                          Description = Feed.Description f,
                          Language = '''',
                          Copyright = Feed.Copyright f,
                          ManagingEditor = author,
                          WebMaster = '''',
                          PubDate = pub,
                          LastBuildDate = build,
                          Category = '''',
                          Generator = '''',
                          Docs = '''',
                          Cloud = '''',
                          Ttl = 0,
                          Rating = '''',
                          SkipHours = '''',
                          SkipDays = '''',
                          AmznRssVersion = 1.0,
                          Image = image,
                          TextInput = None,
                          Items = []\<rparr>
                         (Feed.Items f))))"

text \<open>
  \<open>(r *AmazonRssFeed) FeedXml()\<close>: the receiver is stored in the envelope and never
  read, so a nil receiver is stored as it is; nothing is allocated or written, and the
  store is returned as it was.
\<close>

definition AmazonRssFeed_FeedXml :: "addr option \<Rightarrow> store \<Rightarrow> AmazonRssFeedXml \<times> store" where
  "AmazonRssFeed_FeedXml r s =
     (\<lparr>Version = ''2.0'',
       ContentNamespace = ''http://purl.org/rss/1.0/modules/content/'',
       DublinCoreNamespace = ''http://purl.org/dc/elements/1.1/'',
       AmazonNamespace = ''https://amazon.com/ospublishing/1.0/'',
       Channel = r\<rparr>, s)"

text \<open>
  \<open>(r *AmazonRss) FeedXml()\<close>: \<open>r.AmazonRssFeed()\<close> returns a pointer to the channel it
  has built, which is allocated here, and \<open>FeedXml\<close> wraps that pointer.
\<close>

definition AmazonRss_FeedXml ::
  "formatter \<Rightarrow> AmazonRss option \<Rightarrow> store \<Rightarrow> fault + AmazonRssFeedXml \<times> store" where
  "AmazonRss_FeedXml Format r s =
     (case AmazonRssFeed Format r of
        Inl e \<Rightarrow> Inl e
      | Inr channel \<Rightarrow>
          (case alloc s channel of
             (a, s') \<Rightarrow> Inr (AmazonRssFeed_FeedXml (Some a) s')))"

section \<open>Example inputs\<close>

text \<open>
  Two instants, one day apart, and the zero value of \<open>time.Time\<close>. \<open>exampleFormat\<close>
  is a formatter that agrees with Go's \<open>Format\<close> on the two instants for the layout
  \<open>RFC1123Z\<close>.
\<close>

definition zeroTime :: Time where
  "zeroTime = \<lparr>sec = 0, nsec = 0, offset = 0\<rparr>"

definition t0 :: Time where
  "t0 = \<lparr>sec = 63271836245, nsec = 0, offset = 0\<rparr>"

definition t1 :: Time where
  "t1 = \<lparr>sec = 63271922645, nsec = 0, offset = 0\<rparr>"

definition exampleFormat :: formatter where
  "exampleFormat t layout =
     (if sec t = 63271836245 then ''Mon, 02 Jan 2006 22:04:05 +0000''
      else ''Tue, 03 Jan 2006 22:04:05 +0000'')"

text \<open>
  The feed of the first concrete scenario of the spec (section 8): no author, no image, one
  item with a creation time and none of the optional structures.
\<close>

definition scenarioItem :: Item where
  "scenarioItem =
     \<lparr>Item.Title = ''I1'', Link = Some \<lparr>Href = ''http://x/1''\<rparr>, Description = ''D1'',
      Id = '''', Content = '''', Source = None, Author = None, Enclosure = None,
      Created = t0, Updated = zeroTime\<rparr>"

definition scenarioFeed :: Feed where
  "scenarioFeed =
     \<lparr>Feed.Title = ''T'', Link = Some \<lparr>Href = ''http://x''\<rparr>, Description = ''D'',
      Author = None, Copyright = '''', Created = zeroTime, Updated = zeroTime,
      Image = None, Items = [Some scenarioItem]\<rparr>"

text \<open>
  An item with every optional structure present (its enclosure has an empty \<open>Url\<close>) and
  an update time only, and a feed with an author, an image and both items.
\<close>

definition fullItem :: Item where
  "fullItem =
     \<lparr>Item.Title = ''I2'', Link = Some \<lparr>Href = ''http://x/2''\<rparr>, Description = ''D2'',
      Id = ''id-2'', Content = ''<p>body</p>'', Source = Some \<lparr>Href = ''http://src''\<rparr>,
      Author = Some \<lparr>Name = ''Ann'', Email = ''ann@x''\<rparr>,
      Enclosure = Some \<lparr>Enclosure.Url = '''', Type = ''audio/mpeg'', Length = ''10''\<rparr>,
      Created = zeroTime, Updated = t1\<rparr>"

definition fullFeed :: Feed where
  "fullFeed =
     \<lparr>Feed.Title = ''T'', Link = Some \<lparr>Href = ''http://x''\<rparr>, Description = ''D'',
      Author = Some \<lparr>Name = ''Ann'', Email = ''ann@x''\<rparr>, Copyright = ''(c) x'',
      Created = t0, Updated = t1,
      Image = Some \<lparr>Image.Url = ''http://x/i.png'', Title = ''T'', Link = ''http://x'',
                    Width = 144, Height = 72\<rparr>,
      Items = [Some scenarioItem, Some fullItem]\<rparr>"

lemmas example_defs =
  zeroTime_def t0_def t1_def exampleFormat_def scenarioItem_def scenarioFeed_def
  fullItem_def fullFeed_def

lemmas mapping_defs =
  AmazonRssFeed_def newAmazonRssItem_def IsZero_def RFC1123Z_def Let_def

section \<open>Facts about the mapping\<close>

text \<open>\<open>newAmazonRssItem\<close> returns an item exactly for a non-nil item with a non-nil link.\<close>

lemma newAmazonRssItem_Inr_iff:
  "(\<exists>x. newAmazonRssItem Format p = Inr x) \<longleftrightarrow> (\<exists>i l. p = Some i \<and> Item.Link i = Some l)"
  by (simp add: newAmazonRssItem_def Let_def split: option.splits)

text \<open>
  The loop only extends \<open>Items\<close>: when it completes, the channel is the one it started
  from with the mapped items appended in order.
\<close>

lemma appendItems_Inr:
  "appendItems Format channel its = Inr ch \<Longrightarrow>
     \<exists>xs. ch = channel\<lparr>AmazonRssFeed.Items := AmazonRssFeed.Items channel @ xs\<rparr> \<and>
          map Inr xs = map (newAmazonRssItem Format) its"
proof (induction its arbitrary: channel)
  case Nil
  then show ?case by auto
next
  case (Cons i rest)
  from Cons.prems obtain item where item: "newAmazonRssItem Format i = Inr item"
    and run: "appendItems Format
       (channel\<lparr>AmazonRssFeed.Items := AmazonRssFeed.Items channel @ [item]\<rparr>) rest = Inr ch"
    by (auto split: sum.splits)
  from Cons.IH [OF run] obtain xs where
    ch: "ch = channel\<lparr>AmazonRssFeed.Items := (AmazonRssFeed.Items channel @ [item]) @ xs\<rparr>"
    and xs: "map Inr xs = map (newAmazonRssItem Format) rest"
    by auto
  have "ch = channel\<lparr>AmazonRssFeed.Items := AmazonRssFeed.Items channel @ (item # xs)\<rparr>"
    using ch by simp
  moreover have "map Inr (item # xs) = map (newAmazonRssItem Format) (i # rest)"
    using item xs by simp
  ultimately show ?case by blast
qed

lemma appendItems_total:
  "\<forall>i\<in>set its. \<exists>x. newAmazonRssItem Format i = Inr x \<Longrightarrow>
     \<exists>ch. appendItems Format channel its = Inr ch"
  by (induction its arbitrary: channel) (auto split: sum.splits)

lemma all_mapped:
  assumes xs: "map Inr xs = map (newAmazonRssItem Format) its"
  shows "\<forall>i\<in>set its. \<exists>x. newAmazonRssItem Format i = Inr x"
proof
  fix i assume "i \<in> set its"
  then have "newAmazonRssItem Format i \<in> set (map Inr xs)" using xs by simp
  then show "\<exists>x. newAmazonRssItem Format i = Inr x" by auto
qed

text \<open>The example inputs are mapped without a fault.\<close>

lemma fullFeed_runs:
  "\<exists>ch. AmazonRssFeed exampleFormat (Some \<lparr>AmazonRss.Feed = Some fullFeed\<rparr>) = Inr ch"
  by (simp add: example_defs mapping_defs)

lemma scenarioFeed_runs:
  "\<exists>ch. AmazonRssFeed exampleFormat (Some \<lparr>AmazonRss.Feed = Some scenarioFeed\<rparr>) = Inr ch"
  by (simp add: example_defs mapping_defs)

lemma fullItem_runs: "\<exists>x. newAmazonRssItem exampleFormat (Some fullItem) = Inr x"
  by (simp add: example_defs mapping_defs)

lemma scenarioItem_runs: "\<exists>x. newAmazonRssItem exampleFormat (Some scenarioItem) = Inr x"
  by (simp add: example_defs mapping_defs)


text \<open>
  The item a completed call of \<open>newAmazonRssItem\<close> returns, with the conditional
  assignments folded into the literal.
\<close>

lemma newAmazonRssItem_Inr:
  assumes "newAmazonRssItem Format p = Inr x"
  shows "\<exists>i l. p = Some i \<and> Item.Link i = Some l \<and>
    x = \<lparr>AmazonRssItem.Title = Item.Title i,
         Link = Href l,
         Description = Item.Description i,
         Content = (if Item.Content i = '''' then None
                    else Some \<lparr>RssContent.Content = Item.Content i\<rparr>),
         Author = (case Item.Author i of None \<Rightarrow> '''' | Some a \<Rightarrow> Name a),
         Category = '''',
         Comments = '''',
         Enclosure =
           (case Item.Enclosure i of
              None \<Rightarrow> None
            | Some e \<Rightarrow>
                if Enclosure.Type e \<noteq> '''' \<and> Enclosure.Length e \<noteq> ''''
                then Some \<lparr>RssEnclosure.Url = Enclosure.Url e, Type = Enclosure.Type e,
                           Length = Enclosure.Length e\<rparr>
                else None),
         Guid = Item.Id i,
         PubDate = anyTimeFormat Format RFC1123Z [Item.Created i, Item.Updated i],
         Source = (case Item.Source i of None \<Rightarrow> '''' | Some s \<Rightarrow> Href s),
         Creator = '''',
         HeroImage = ''POST THUMBNAIL (Prefer 2x1 at least 1000px wide)'',
         IntroText = ''META DESCRIPTION'',
         IndexContent = ''True'',
         Products = []\<rparr>"
proof -
  from assms newAmazonRssItem_Inr_iff [of Format p]
  obtain i l where p: "p = Some i" and l: "Item.Link i = Some l"
    by blast
  define item0 where
    "item0 = \<lparr>AmazonRssItem.Title = Item.Title i,
               Link = Href l,
               Description = Item.Description i,
               Content = None,
               Author = '''',
               Category = '''',
               Comments = '''',
               Enclosure = None,
               Guid = Item.Id i,
               PubDate = anyTimeFormat Format RFC1123Z [Item.Created i, Item.Updated i],
               Source = '''',
               Creator = '''',
               HeroImage = ''POST THUMBNAIL (Prefer 2x1 at least 1000px wide)'',
               IntroText = ''META DESCRIPTION'',
               IndexContent = ''True'',
               Products = []\<rparr>"
  define item1 where
    "item1 = (if 0 < length (Item.Content i)
              then item0\<lparr>AmazonRssItem.Content :=
                     Some \<lparr>RssContent.Content = Item.Content i\<rparr>\<rparr>
              else item0)"
  define item2 where
    "item2 = (case Item.Source i of
                Some s \<Rightarrow> item1\<lparr>AmazonRssItem.Source := Href s\<rparr>
              | None \<Rightarrow> item1)"
  define item3 where
    "item3 = (case Item.Enclosure i of
                Some e \<Rightarrow>
                  (if Enclosure.Type e \<noteq> '''' \<and> Enclosure.Length e \<noteq> ''''
                   then item2\<lparr>AmazonRssItem.Enclosure :=
                          Some \<lparr>RssEnclosure.Url = Enclosure.Url e,
                                Type = Enclosure.Type e,
                                Length = Enclosure.Length e\<rparr>\<rparr>
                   else item2)
              | None \<Rightarrow> item2)"
  define item4 where
    "item4 = (case Item.Author i of
                Some a \<Rightarrow> item3\<lparr>AmazonRssItem.Author := Name a\<rparr>
              | None \<Rightarrow> item3)"
  have "newAmazonRssItem Format p = Inr item4"
    unfolding newAmazonRssItem_def item4_def item3_def item2_def item1_def item0_def
    by (simp only: p l option.case Let_def)
  with assms have x: "x = item4" by simp
  have c: "item1 = item0\<lparr>AmazonRssItem.Content :=
      (if Item.Content i = '''' then None
       else Some \<lparr>RssContent.Content = Item.Content i\<rparr>)\<rparr>"
    by (simp add: item1_def item0_def)
  have s: "item2 = item1\<lparr>AmazonRssItem.Source :=
      (case Item.Source i of None \<Rightarrow> '''' | Some s \<Rightarrow> Href s)\<rparr>"
    by (cases "Item.Source i") (simp_all add: item2_def c item0_def)
  have e: "item3 = item2\<lparr>AmazonRssItem.Enclosure :=
      (case Item.Enclosure i of
         None \<Rightarrow> None
       | Some e \<Rightarrow>
           if Enclosure.Type e \<noteq> '''' \<and> Enclosure.Length e \<noteq> ''''
           then Some \<lparr>RssEnclosure.Url = Enclosure.Url e, Type = Enclosure.Type e,
                      Length = Enclosure.Length e\<rparr>
           else None)\<rparr>"
    by (cases "Item.Enclosure i") (simp_all add: item3_def s c item0_def)
  have a: "item4 = item3\<lparr>AmazonRssItem.Author :=
      (case Item.Author i of None \<Rightarrow> '''' | Some a \<Rightarrow> Name a)\<rparr>"
    by (cases "Item.Author i") (simp_all add: item4_def e s c item0_def)
  show ?thesis
    unfolding x a e s c item0_def using p l
    by (simp del: anyTimeFormat.simps)
qed

text \<open>
  The channel a completed call of \<open>AmazonRssFeed\<close> returns: the literal, with the mapped
  items.
\<close>

lemma AmazonRssFeed_Inr:
  assumes "AmazonRssFeed Format (Some \<lparr>AmazonRss.Feed = Some f\<rparr>) = Inr ch"
  shows "\<exists>l xs. Feed.Link f = Some l \<and>
    map Inr xs = map (newAmazonRssItem Format) (Feed.Items f) \<and>
    ch = \<lparr>AmazonRssFeed.Title = Feed.Title f,
          Link = Href l,
          Description = Feed.Description f,
          Language = '''',
          Copyright = Feed.Copyright f,
          ManagingEditor =
            (case Feed.Author f of
               None \<Rightarrow> ''''
             | Some a \<Rightarrow>
                 if 0 < length (Name a) then Email a @ '' ('' @ Name a @ '')'' else Email a),
          WebMaster = '''',
          PubDate = anyTimeFormat Format RFC1123Z [Feed.Created f, Feed.Updated f],
          LastBuildDate = anyTimeFormat Format RFC1123Z [Feed.Updated f],
          Category = '''',
          Generator = '''',
          Docs = '''',
          Cloud = '''',
          Ttl = 0,
          Rating = '''',
          SkipHours = '''',
          SkipDays = '''',
          AmznRssVersion = 1.0,
          Image =
            (case Feed.Image f of
               None \<Rightarrow> None
             | Some im \<Rightarrow>
                 Some \<lparr>RssImage.Url = Image.Url im, Title = Image.Title im,
                       Link = Image.Link im, Width = Image.Width im,
                       Height = Image.Height im\<rparr>),
          TextInput = None,
          Items = xs\<rparr>"
proof (cases "Feed.Link f")
  case None
  with assms show ?thesis by (simp add: AmazonRssFeed_def Let_def)
next
  case (Some l)
  define channel where "channel = \<lparr>AmazonRssFeed.Title = Feed.Title f,
          Link = Href l,
          Description = Feed.Description f,
          Language = '''',
          Copyright = Feed.Copyright f,
          ManagingEditor =
            (case Feed.Author f of
               None \<Rightarrow> ''''
             | Some a \<Rightarrow>
                 if 0 < length (Name a) then Email a @ '' ('' @ Name a @ '')'' else Email a),
          WebMaster = '''',
          PubDate = anyTimeFormat Format RFC1123Z [Feed.Created f, Feed.Updated f],
          LastBuildDate = anyTimeFormat Format RFC1123Z [Feed.Updated f],
          Category = '''',
          Generator = '''',
          Docs = '''',
          Cloud = '''',
          Ttl = 0,
          Rating = '''',
          SkipHours = '''',
          SkipDays = '''',
          AmznRssVersion = 1.0,
          Image =
            (case Feed.Image f of
               None \<Rightarrow> None
             | Some im \<Rightarrow>
                 Some \<lparr>RssImage.Url = Image.Url im, Title = Image.Title im,
                       Link = Image.Link im, Width = Image.Width im,
                       Height = Image.Height im\<rparr>),
          TextInput = None,
          Items = []\<rparr>"
  from assms Some have run: "appendItems Format channel (Feed.Items f) = Inr ch"
    unfolding channel_def
    by (simp add: AmazonRssFeed_def Let_def del: anyTimeFormat.simps cong: option.case_cong)
  from appendItems_Inr [OF run] obtain xs where
    ch: "ch = channel\<lparr>AmazonRssFeed.Items := AmazonRssFeed.Items channel @ xs\<rparr>" and
    xs: "map Inr xs = map (newAmazonRssItem Format) (Feed.Items f)"
    by blast
  from ch have "ch = channel\<lparr>AmazonRssFeed.Items := xs\<rparr>"
    by (simp add: channel_def)
  with Some xs show ?thesis
    by (simp add: channel_def del: anyTimeFormat.simps)
qed

section \<open>The claims\<close>

text \<open>
  C1. For every feed, the channel's \<open>PubDate\<close> is the RFC-1123-with-numeric-zone
  formatting of \<open>Created\<close> if \<open>Created\<close> is non-zero, else of \<open>Updated\<close> if \<open>Updated\<close>
  is non-zero, else the empty string; the channel's \<open>LastBuildDate\<close> is the same
  formatting of \<open>Updated\<close> if \<open>Updated\<close> is non-zero, else the empty string, also when
  \<open>Created\<close> is non-zero. For every item, the item's \<open>PubDate\<close> follows the same
  fallback as the channel's \<open>PubDate\<close>.
\<close>

theorem pubDate_created_then_updated:
  "(AmazonRssFeed Format (Some \<lparr>AmazonRss.Feed = Some f\<rparr>) = Inr ch \<longrightarrow>
      AmazonRssFeed.PubDate ch =
        (if \<not> IsZero (Feed.Created f) then Format (Feed.Created f) RFC1123Z
         else if \<not> IsZero (Feed.Updated f) then Format (Feed.Updated f) RFC1123Z
         else '''') \<and>
      AmazonRssFeed.LastBuildDate ch =
        (if \<not> IsZero (Feed.Updated f) then Format (Feed.Updated f) RFC1123Z else '''')) \<and>
   (newAmazonRssItem Format (Some i) = Inr x \<longrightarrow>
      AmazonRssItem.PubDate x =
        (if \<not> IsZero (Item.Created i) then Format (Item.Created i) RFC1123Z
         else if \<not> IsZero (Item.Updated i) then Format (Item.Updated i) RFC1123Z
         else ''''))"
proof (intro conjI impI)
  assume run: "AmazonRssFeed Format (Some \<lparr>AmazonRss.Feed = Some f\<rparr>) = Inr ch"
  from AmazonRssFeed_Inr [OF run] show "AmazonRssFeed.PubDate ch =
        (if \<not> IsZero (Feed.Created f) then Format (Feed.Created f) RFC1123Z
         else if \<not> IsZero (Feed.Updated f) then Format (Feed.Updated f) RFC1123Z
         else '''')"
    by auto
  from AmazonRssFeed_Inr [OF run] show "AmazonRssFeed.LastBuildDate ch =
        (if \<not> IsZero (Feed.Updated f) then Format (Feed.Updated f) RFC1123Z else '''')"
    by auto
next
  assume "newAmazonRssItem Format (Some i) = Inr x"
  from newAmazonRssItem_Inr [OF this] show "AmazonRssItem.PubDate x =
        (if \<not> IsZero (Item.Created i) then Format (Item.Created i) RFC1123Z
         else if \<not> IsZero (Item.Updated i) then Format (Item.Updated i) RFC1123Z
         else '''')"
    by auto
qed

theorem pubDate_created_then_updated_witness:
  "\<exists>ch x.
     AmazonRssFeed exampleFormat
       (Some \<lparr>AmazonRss.Feed = Some (fullFeed\<lparr>Feed.Updated := zeroTime\<rparr>)\<rparr>) = Inr ch \<and>
     AmazonRssFeed.PubDate ch = ''Mon, 02 Jan 2006 22:04:05 +0000'' \<and>
     AmazonRssFeed.LastBuildDate ch = '''' \<and>
     newAmazonRssItem exampleFormat (Some fullItem) = Inr x \<and>
     AmazonRssItem.PubDate x = ''Tue, 03 Jan 2006 22:04:05 +0000''"
proof -
  have "\<exists>ch. AmazonRssFeed exampleFormat
       (Some \<lparr>AmazonRss.Feed = Some (fullFeed\<lparr>Feed.Updated := zeroTime\<rparr>)\<rparr>) = Inr ch"
    by (simp add: example_defs mapping_defs)
  then obtain ch where ch: "AmazonRssFeed exampleFormat
       (Some \<lparr>AmazonRss.Feed = Some (fullFeed\<lparr>Feed.Updated := zeroTime\<rparr>)\<rparr>) = Inr ch"
    by blast
  obtain x where x: "newAmazonRssItem exampleFormat (Some fullItem) = Inr x"
    using fullItem_runs by blast
  note dates = pubDate_created_then_updated
    [of exampleFormat "fullFeed\<lparr>Feed.Updated := zeroTime\<rparr>" ch fullItem x]
  have "AmazonRssFeed.PubDate ch = ''Mon, 02 Jan 2006 22:04:05 +0000'' \<and>
        AmazonRssFeed.LastBuildDate ch = ''''"
    using dates ch by (simp add: example_defs IsZero_def)
  moreover have "AmazonRssItem.PubDate x = ''Tue, 03 Jan 2006 22:04:05 +0000''"
    using dates x by (simp add: example_defs IsZero_def)
  ultimately show ?thesis using ch x by blast
qed

text \<open>
  C2. For every input item, the produced item's \<open>Enclosure\<close> is non-nil if and only if
  the source enclosure is present and both its \<open>Type\<close> and its \<open>Length\<close> are non-empty;
  \<open>Url\<close> does not gate the construction, and whenever an enclosure is constructed its
  \<open>Url\<close>, \<open>Type\<close> and \<open>Length\<close> are the source enclosure's.
\<close>

theorem enclosure_iff_type_and_length:
  assumes "newAmazonRssItem Format (Some i) = Inr x"
  shows "(AmazonRssItem.Enclosure x \<noteq> None \<longleftrightarrow>
            (\<exists>e. Item.Enclosure i = Some e \<and>
                 Enclosure.Type e \<noteq> '''' \<and> Enclosure.Length e \<noteq> '''')) \<and>
         (\<forall>r. AmazonRssItem.Enclosure x = Some r \<longrightarrow>
            (\<exists>e. Item.Enclosure i = Some e \<and>
                 RssEnclosure.Url r = Enclosure.Url e \<and>
                 RssEnclosure.Type r = Enclosure.Type e \<and>
                 RssEnclosure.Length r = Enclosure.Length e))"
proof -
  from newAmazonRssItem_Inr [OF assms] have
    "AmazonRssItem.Enclosure x =
       (case Item.Enclosure i of
          None \<Rightarrow> None
        | Some e \<Rightarrow>
            if Enclosure.Type e \<noteq> '''' \<and> Enclosure.Length e \<noteq> ''''
            then Some \<lparr>RssEnclosure.Url = Enclosure.Url e, Type = Enclosure.Type e,
                       Length = Enclosure.Length e\<rparr>
            else None)"
    by auto
  then show ?thesis
    by (auto split: option.splits if_splits)
qed

theorem enclosure_iff_type_and_length_witness:
  "\<exists>x r y z.
     newAmazonRssItem exampleFormat (Some fullItem) = Inr x \<and>
     AmazonRssItem.Enclosure x = Some r \<and>
     RssEnclosure.Url r = '''' \<and>
     RssEnclosure.Type r = ''audio/mpeg'' \<and>
     RssEnclosure.Length r = ''10'' \<and>
     newAmazonRssItem exampleFormat (Some scenarioItem) = Inr y \<and>
     AmazonRssItem.Enclosure y = None \<and>
     newAmazonRssItem exampleFormat
       (Some (scenarioItem\<lparr>Item.Enclosure :=
          Some \<lparr>Enclosure.Url = ''http://e'', Type = '''', Length = ''10''\<rparr>\<rparr>)) = Inr z \<and>
     AmazonRssItem.Enclosure z = None"
proof -
  obtain x where x: "newAmazonRssItem exampleFormat (Some fullItem) = Inr x"
    using fullItem_runs by blast
  note enc = enclosure_iff_type_and_length [OF x]
  have "AmazonRssItem.Enclosure x \<noteq> None"
    using enc by (simp add: fullItem_def)
  then obtain r where r: "AmazonRssItem.Enclosure x = Some r" by blast
  with enc have fields: "RssEnclosure.Url r = '''' \<and> RssEnclosure.Type r = ''audio/mpeg'' \<and>
      RssEnclosure.Length r = ''10''"
    by (auto simp: fullItem_def)
  obtain y where y: "newAmazonRssItem exampleFormat (Some scenarioItem) = Inr y"
    using scenarioItem_runs by blast
  have absent: "AmazonRssItem.Enclosure y = None"
    using enclosure_iff_type_and_length [OF y] by (simp add: scenarioItem_def)
  have "\<exists>z. newAmazonRssItem exampleFormat
       (Some (scenarioItem\<lparr>Item.Enclosure :=
          Some \<lparr>Enclosure.Url = ''http://e'', Type = '''', Length = ''10''\<rparr>\<rparr>)) = Inr z"
    using newAmazonRssItem_Inr_iff [of exampleFormat] by (simp add: scenarioItem_def)
  then obtain z where z: "newAmazonRssItem exampleFormat
       (Some (scenarioItem\<lparr>Item.Enclosure :=
          Some \<lparr>Enclosure.Url = ''http://e'', Type = '''', Length = ''10''\<rparr>\<rparr>)) = Inr z"
    by blast
  have gated: "AmazonRssItem.Enclosure z = None"
    using enclosure_iff_type_and_length [OF z] by (simp add: scenarioItem_def)
  from x r fields y absent z gated show ?thesis by blast
qed

text \<open>
  C3. For every feed with a non-nil \<open>Author\<close> whose \<open>Name\<close> is empty, the channel's
  \<open>ManagingEditor\<close> is \<open>Author.Email\<close> exactly; with a non-empty \<open>Name\<close> it is the email,
  a space and the name in parentheses; with a nil \<open>Author\<close> it is the empty string.
\<close>

theorem managingEditor_email_and_name:
  assumes "AmazonRssFeed Format (Some \<lparr>AmazonRss.Feed = Some f\<rparr>) = Inr ch"
  shows "ManagingEditor ch =
           (case Feed.Author f of
              None \<Rightarrow> ''''
            | Some a \<Rightarrow>
                if Name a = '''' then Email a else Email a @ '' ('' @ Name a @ '')'')"
proof -
  from AmazonRssFeed_Inr [OF assms] have
    "ManagingEditor ch =
       (case Feed.Author f of
          None \<Rightarrow> ''''
        | Some a \<Rightarrow>
            if 0 < length (Name a) then Email a @ '' ('' @ Name a @ '')'' else Email a)"
    by auto
  then show ?thesis
    by (simp split: option.splits)
qed

theorem managingEditor_email_and_name_witness:
  "\<exists>ch ch' ch''.
     AmazonRssFeed exampleFormat (Some \<lparr>AmazonRss.Feed = Some fullFeed\<rparr>) = Inr ch \<and>
     ManagingEditor ch = ''ann@x (Ann)'' \<and>
     AmazonRssFeed exampleFormat
       (Some \<lparr>AmazonRss.Feed =
          Some (scenarioFeed\<lparr>Feed.Author := Some \<lparr>Name = '''', Email = ''ann@x''\<rparr>\<rparr>)\<rparr>) =
       Inr ch' \<and>
     ManagingEditor ch' = ''ann@x'' \<and>
     AmazonRssFeed exampleFormat (Some \<lparr>AmazonRss.Feed = Some scenarioFeed\<rparr>) = Inr ch'' \<and>
     ManagingEditor ch'' = ''''"
proof -
  obtain ch where ch:
    "AmazonRssFeed exampleFormat (Some \<lparr>AmazonRss.Feed = Some fullFeed\<rparr>) = Inr ch"
    using fullFeed_runs by blast
  have named: "ManagingEditor ch = ''ann@x (Ann)''"
    using managingEditor_email_and_name [OF ch] by (simp add: fullFeed_def)
  have "\<exists>ch'. AmazonRssFeed exampleFormat
       (Some \<lparr>AmazonRss.Feed =
          Some (scenarioFeed\<lparr>Feed.Author := Some \<lparr>Name = '''', Email = ''ann@x''\<rparr>\<rparr>)\<rparr>) =
       Inr ch'"
    by (simp add: example_defs mapping_defs)
  then obtain ch' where ch': "AmazonRssFeed exampleFormat
       (Some \<lparr>AmazonRss.Feed =
          Some (scenarioFeed\<lparr>Feed.Author := Some \<lparr>Name = '''', Email = ''ann@x''\<rparr>\<rparr>)\<rparr>) =
       Inr ch'"
    by blast
  have unnamed: "ManagingEditor ch' = ''ann@x''"
    using managingEditor_email_and_name [OF ch'] by (simp add: scenarioFeed_def)
  obtain ch'' where ch'':
    "AmazonRssFeed exampleFormat (Some \<lparr>AmazonRss.Feed = Some scenarioFeed\<rparr>) = Inr ch''"
    using scenarioFeed_runs by blast
  have absent: "ManagingEditor ch'' = ''''"
    using managingEditor_email_and_name [OF ch''] by (simp add: scenarioFeed_def)
  from ch named ch' unnamed ch'' absent show ?thesis by blast
qed

text \<open>
  C4. For every input item, whatever its content, the produced item's three vendor
  placeholder fields are the fixed literals and its \<open>Products\<close> collection is empty.
\<close>

theorem vendor_placeholders_fixed:
  assumes "newAmazonRssItem Format p = Inr x"
  shows "HeroImage x = ''POST THUMBNAIL (Prefer 2x1 at least 1000px wide)'' \<and>
         IntroText x = ''META DESCRIPTION'' \<and>
         IndexContent x = ''True'' \<and>
         Products x = []"
  using newAmazonRssItem_Inr [OF assms]
  by auto

theorem vendor_placeholders_fixed_witness:
  "\<exists>x. newAmazonRssItem exampleFormat (Some fullItem) = Inr x \<and>
       HeroImage x = ''POST THUMBNAIL (Prefer 2x1 at least 1000px wide)'' \<and>
       IntroText x = ''META DESCRIPTION'' \<and>
       IndexContent x = ''True'' \<and>
       Products x = []"
proof -
  obtain x where x: "newAmazonRssItem exampleFormat (Some fullItem) = Inr x"
    using fullItem_runs by blast
  from vendor_placeholders_fixed [OF x] x show ?thesis by blast
qed

text \<open>
  C5. For every input item whose \<open>Content\<close> string is empty, the produced item has a nil
  \<open>Content\<close>; for every input item whose \<open>Content\<close> string is non-empty, the produced
  item's \<open>Content\<close> is present and holds the source string.
\<close>

theorem content_iff_nonempty:
  assumes "newAmazonRssItem Format (Some i) = Inr x"
  shows "(Item.Content i = '''' \<longrightarrow> AmazonRssItem.Content x = None) \<and>
         (Item.Content i \<noteq> '''' \<longrightarrow>
            AmazonRssItem.Content x = Some \<lparr>RssContent.Content = Item.Content i\<rparr>)"
proof -
  from newAmazonRssItem_Inr [OF assms] have
    "AmazonRssItem.Content x =
       (if Item.Content i = '''' then None
        else Some \<lparr>RssContent.Content = Item.Content i\<rparr>)"
    by auto
  then show ?thesis by simp
qed

theorem content_iff_nonempty_witness:
  "\<exists>x y. newAmazonRssItem exampleFormat (Some fullItem) = Inr x \<and>
         AmazonRssItem.Content x = Some \<lparr>RssContent.Content = ''<p>body</p>''\<rparr> \<and>
         newAmazonRssItem exampleFormat (Some scenarioItem) = Inr y \<and>
         AmazonRssItem.Content y = None"
proof -
  obtain x where x: "newAmazonRssItem exampleFormat (Some fullItem) = Inr x"
    using fullItem_runs by blast
  obtain y where y: "newAmazonRssItem exampleFormat (Some scenarioItem) = Inr y"
    using scenarioItem_runs by blast
  have "AmazonRssItem.Content x = Some \<lparr>RssContent.Content = ''<p>body</p>''\<rparr>"
    using content_iff_nonempty [OF x] by (simp add: fullItem_def)
  moreover have "AmazonRssItem.Content y = None"
    using content_iff_nonempty [OF y] by (simp add: scenarioItem_def)
  ultimately show ?thesis using x y by blast
qed

text \<open>
  C6. For every feed, the channel's \<open>Title\<close>, \<open>Link\<close> (from \<open>Link.Href\<close>) and
  \<open>Description\<close> are the feed's, \<open>AmznRssVersion\<close> is 1.0, \<open>Copyright\<close> is the feed's,
  \<open>Image\<close> is a field-for-field copy of the feed's image when present and nil otherwise,
  and \<open>Items\<close> holds one item per input item, each the per-item mapping of that input
  item, in the order of the input.
\<close>

theorem channel_copies_feed_and_maps_items:
  assumes "AmazonRssFeed Format (Some \<lparr>AmazonRss.Feed = Some f\<rparr>) = Inr ch"
  shows "AmazonRssFeed.Title ch = Feed.Title f \<and>
         (\<exists>l. Feed.Link f = Some l \<and> AmazonRssFeed.Link ch = Href l) \<and>
         AmazonRssFeed.Description ch = Feed.Description f \<and>
         AmznRssVersion ch = 1.0 \<and>
         AmazonRssFeed.Copyright ch = Feed.Copyright f \<and>
         AmazonRssFeed.Image ch =
           (case Feed.Image f of
              None \<Rightarrow> None
            | Some im \<Rightarrow>
                Some \<lparr>RssImage.Url = Image.Url im, Title = Image.Title im,
                      Link = Image.Link im, Width = Image.Width im,
                      Height = Image.Height im\<rparr>) \<and>
         length (AmazonRssFeed.Items ch) = length (Feed.Items f) \<and>
         map Inr (AmazonRssFeed.Items ch) = map (newAmazonRssItem Format) (Feed.Items f)"
proof -
  from AmazonRssFeed_Inr [OF assms] obtain l xs where
    l: "Feed.Link f = Some l" and
    xs: "map Inr xs = map (newAmazonRssItem Format) (Feed.Items f)" and
    items: "AmazonRssFeed.Items ch = xs" and
    fields:
      "AmazonRssFeed.Title ch = Feed.Title f \<and>
       AmazonRssFeed.Link ch = Href l \<and>
       AmazonRssFeed.Description ch = Feed.Description f \<and>
       AmznRssVersion ch = 1.0 \<and>
       AmazonRssFeed.Copyright ch = Feed.Copyright f" and
    image:
      "AmazonRssFeed.Image ch =
         (case Feed.Image f of
            None \<Rightarrow> None
          | Some im \<Rightarrow>
              Some \<lparr>RssImage.Url = Image.Url im, Title = Image.Title im,
                    Link = Image.Link im, Width = Image.Width im,
                    Height = Image.Height im\<rparr>)"
    by auto
  have "length (map Inr xs :: (fault + AmazonRssItem) list) = length (Feed.Items f)"
    by (simp only: xs length_map)
  then have len: "length (AmazonRssFeed.Items ch) = length (Feed.Items f)"
    using items by simp
  from l fields image len xs items show ?thesis by simp
qed

theorem channel_copies_feed_and_maps_items_witness:
  "\<exists>ch x y ch' z.
     AmazonRssFeed exampleFormat (Some \<lparr>AmazonRss.Feed = Some fullFeed\<rparr>) = Inr ch \<and>
     AmazonRssFeed.Title ch = ''T'' \<and>
     AmazonRssFeed.Link ch = ''http://x'' \<and>
     AmazonRssFeed.Description ch = ''D'' \<and>
     AmznRssVersion ch = 1.0 \<and>
     AmazonRssFeed.Copyright ch = ''(c) x'' \<and>
     AmazonRssFeed.Image ch =
       Some \<lparr>RssImage.Url = ''http://x/i.png'', Title = ''T'', Link = ''http://x'',
             Width = 144, Height = 72\<rparr> \<and>
     AmazonRssFeed.Items ch = [x, y] \<and>
     newAmazonRssItem exampleFormat (Some scenarioItem) = Inr x \<and>
     newAmazonRssItem exampleFormat (Some fullItem) = Inr y \<and>
     AmazonRssFeed exampleFormat (Some \<lparr>AmazonRss.Feed = Some scenarioFeed\<rparr>) = Inr ch' \<and>
     AmazonRssFeed.Image ch' = None \<and>
     AmazonRssFeed.Items ch' = [z] \<and>
     newAmazonRssItem exampleFormat (Some scenarioItem) = Inr z"
proof -
  obtain ch where ch:
    "AmazonRssFeed exampleFormat (Some \<lparr>AmazonRss.Feed = Some fullFeed\<rparr>) = Inr ch"
    using fullFeed_runs by blast
  note copy = channel_copies_feed_and_maps_items [OF ch]
  from copy have "length (AmazonRssFeed.Items ch) = 2"
    by (simp add: fullFeed_def)
  then obtain x y where xy: "AmazonRssFeed.Items ch = [x, y]"
    by (auto simp: length_Suc_conv numeral_2_eq_2)
  from copy xy have items: "newAmazonRssItem exampleFormat (Some scenarioItem) = Inr x \<and>
      newAmazonRssItem exampleFormat (Some fullItem) = Inr y"
    by (simp add: fullFeed_def)
  from copy have fields: "AmazonRssFeed.Title ch = ''T'' \<and>
        AmazonRssFeed.Link ch = ''http://x'' \<and>
        AmazonRssFeed.Description ch = ''D'' \<and>
        AmznRssVersion ch = 1.0 \<and>
        AmazonRssFeed.Copyright ch = ''(c) x'' \<and>
        AmazonRssFeed.Image ch =
          Some \<lparr>RssImage.Url = ''http://x/i.png'', Title = ''T'', Link = ''http://x'',
                Width = 144, Height = 72\<rparr>"
    by (simp add: fullFeed_def)
  obtain ch' where ch':
    "AmazonRssFeed exampleFormat (Some \<lparr>AmazonRss.Feed = Some scenarioFeed\<rparr>) = Inr ch'"
    using scenarioFeed_runs by blast
  note copy' = channel_copies_feed_and_maps_items [OF ch']
  from copy' have image': "AmazonRssFeed.Image ch' = None"
    by (simp add: scenarioFeed_def)
  from copy' have "length (AmazonRssFeed.Items ch') = 1"
    by (simp add: scenarioFeed_def)
  then obtain z where z: "AmazonRssFeed.Items ch' = [z]"
    by (auto simp: length_Suc_conv)
  from copy' z have item': "newAmazonRssItem exampleFormat (Some scenarioItem) = Inr z"
    by (simp add: scenarioFeed_def)
  from ch fields xy items ch' image' z item' show ?thesis by blast
qed

text \<open>
  C7. For every input item, the produced item's \<open>Guid\<close> is the input item's \<open>Id\<close>, its
  \<open>Source\<close> is \<open>Source.Href\<close> when the input \<open>Source\<close> is non-nil and the empty string
  otherwise, and its \<open>Author\<close> is the bare \<open>Author.Name\<close> when the input \<open>Author\<close> is
  non-nil and the empty string otherwise.
\<close>

theorem item_guid_source_author:
  assumes "newAmazonRssItem Format (Some i) = Inr x"
  shows "Guid x = Item.Id i \<and>
         AmazonRssItem.Source x = (case Item.Source i of None \<Rightarrow> '''' | Some s \<Rightarrow> Href s) \<and>
         AmazonRssItem.Author x = (case Item.Author i of None \<Rightarrow> '''' | Some a \<Rightarrow> Name a)"
  using newAmazonRssItem_Inr [OF assms]
  by auto

theorem item_guid_source_author_witness:
  "\<exists>x y.
     newAmazonRssItem exampleFormat (Some fullItem) = Inr x \<and>
     Guid x = ''id-2'' \<and>
     AmazonRssItem.Source x = ''http://src'' \<and>
     AmazonRssItem.Author x = ''Ann'' \<and>
     newAmazonRssItem exampleFormat (Some scenarioItem) = Inr y \<and>
     Guid y = '''' \<and>
     AmazonRssItem.Source y = '''' \<and>
     AmazonRssItem.Author y = ''''"
proof -
  obtain x where x: "newAmazonRssItem exampleFormat (Some fullItem) = Inr x"
    using fullItem_runs by blast
  have present: "Guid x = ''id-2'' \<and> AmazonRssItem.Source x = ''http://src'' \<and>
      AmazonRssItem.Author x = ''Ann''"
    using item_guid_source_author [OF x] by (simp add: fullItem_def)
  obtain y where y: "newAmazonRssItem exampleFormat (Some scenarioItem) = Inr y"
    using scenarioItem_runs by blast
  have absent: "Guid y = '''' \<and> AmazonRssItem.Source y = '''' \<and>
      AmazonRssItem.Author y = ''''"
    using item_guid_source_author [OF y] by (simp add: scenarioItem_def)
  from x present y absent show ?thesis by blast
qed

text \<open>
  C8. For every channel, \<open>FeedXml\<close> on \<open>AmazonRssFeed\<close> returns an envelope whose
  \<open>Version\<close> is "2.0", whose three namespace fields are the content module, Dublin Core
  and vendor constants, and whose \<open>Channel\<close> is the input channel itself, held by
  reference with every field value unchanged: the envelope holds the address it was given,
  the store is the one it was given (nothing is allocated, so there is no copy, and nothing
  is written), the channel at that address is still the input channel, and the envelope is
  the same whatever the store holds (the channel is never read).
\<close>

theorem feedXml_wraps_channel:
  assumes "deref s a = Some channel"
  shows "\<exists>env s'. AmazonRssFeed_FeedXml (Some a) s = (env, s') \<and>
           Version env = ''2.0'' \<and>
           ContentNamespace env = ''http://purl.org/rss/1.0/modules/content/'' \<and>
           DublinCoreNamespace env = ''http://purl.org/dc/elements/1.1/'' \<and>
           AmazonNamespace env = ''https://amazon.com/ospublishing/1.0/'' \<and>
           Channel env = Some a \<and>
           s' = s \<and>
           deref s' a = Some channel \<and>
           (\<forall>t. fst (AmazonRssFeed_FeedXml (Some a) t) = env)"
  using assms by (simp add: AmazonRssFeed_FeedXml_def)

theorem feedXml_wraps_channel_witness:
  "\<exists>ch env.
     AmazonRssFeed exampleFormat (Some \<lparr>AmazonRss.Feed = Some fullFeed\<rparr>) = Inr ch \<and>
     deref [ch] 0 = Some ch \<and>
     AmazonRssFeed_FeedXml (Some 0) [ch] = (env, [ch]) \<and>
     Version env = ''2.0'' \<and>
     ContentNamespace env = ''http://purl.org/rss/1.0/modules/content/'' \<and>
     DublinCoreNamespace env = ''http://purl.org/dc/elements/1.1/'' \<and>
     AmazonNamespace env = ''https://amazon.com/ospublishing/1.0/'' \<and>
     Channel env = Some 0"
proof -
  obtain ch where ch:
    "AmazonRssFeed exampleFormat (Some \<lparr>AmazonRss.Feed = Some fullFeed\<rparr>) = Inr ch"
    using fullFeed_runs by blast
  have stored: "deref [ch] 0 = Some ch"
    by (simp add: deref_def)
  from feedXml_wraps_channel [OF stored] obtain env where
    "AmazonRssFeed_FeedXml (Some 0) [ch] = (env, [ch])"
    "Version env = ''2.0''"
    "ContentNamespace env = ''http://purl.org/rss/1.0/modules/content/''"
    "DublinCoreNamespace env = ''http://purl.org/dc/elements/1.1/''"
    "AmazonNamespace env = ''https://amazon.com/ospublishing/1.0/''"
    "Channel env = Some 0"
    by blast
  with ch stored show ?thesis by blast
qed

text \<open>
  C9. For every feed whose \<open>Link\<close> is non-nil and all of whose items have a non-nil
  \<open>Link\<close>, \<open>AmazonRssFeed\<close> and \<open>newAmazonRssItem\<close> complete without a nil-pointer
  fault: the links are the only nested structures read without a nil check, so the
  absence of the feed's \<open>Author\<close> or \<open>Image\<close>, or of an item's \<open>Source\<close>, \<open>Author\<close> or
  \<open>Enclosure\<close>, cannot fault. The mapping of a feed completes exactly when the feed's
  link and the link of each of its items are present, and the mapping of an item exactly
  when its link is.
\<close>

theorem completes_iff_links_present:
  "((\<exists>ch. AmazonRssFeed Format (Some \<lparr>AmazonRss.Feed = Some f\<rparr>) = Inr ch) \<longleftrightarrow>
      Feed.Link f \<noteq> None \<and>
      (\<forall>p\<in>set (Feed.Items f). \<exists>i. p = Some i \<and> Item.Link i \<noteq> None)) \<and>
   ((\<exists>x. newAmazonRssItem Format (Some i) = Inr x) \<longleftrightarrow> Item.Link i \<noteq> None)"
proof (rule conjI)
  show "(\<exists>ch. AmazonRssFeed Format (Some \<lparr>AmazonRss.Feed = Some f\<rparr>) = Inr ch) \<longleftrightarrow>
      Feed.Link f \<noteq> None \<and>
      (\<forall>p\<in>set (Feed.Items f). \<exists>i. p = Some i \<and> Item.Link i \<noteq> None)"
  proof (rule iffI)
    assume "\<exists>ch. AmazonRssFeed Format (Some \<lparr>AmazonRss.Feed = Some f\<rparr>) = Inr ch"
    then obtain ch where
      "AmazonRssFeed Format (Some \<lparr>AmazonRss.Feed = Some f\<rparr>) = Inr ch"
      by blast
    from AmazonRssFeed_Inr [OF this] obtain l xs where
      l: "Feed.Link f = Some l" and
      xs: "map Inr xs = map (newAmazonRssItem Format) (Feed.Items f)"
      by blast
    from xs have "\<forall>p\<in>set (Feed.Items f). \<exists>x. newAmazonRssItem Format p = Inr x"
      by (rule all_mapped)
    then have "\<forall>p\<in>set (Feed.Items f). \<exists>i. p = Some i \<and> Item.Link i \<noteq> None"
      using newAmazonRssItem_Inr_iff [of Format] by auto
    with l show "Feed.Link f \<noteq> None \<and>
        (\<forall>p\<in>set (Feed.Items f). \<exists>i. p = Some i \<and> Item.Link i \<noteq> None)"
      by simp
  next
    assume present: "Feed.Link f \<noteq> None \<and>
        (\<forall>p\<in>set (Feed.Items f). \<exists>i. p = Some i \<and> Item.Link i \<noteq> None)"
    then obtain l where l: "Feed.Link f = Some l" by auto
    from present have "\<forall>p\<in>set (Feed.Items f). \<exists>x. newAmazonRssItem Format p = Inr x"
      using newAmazonRssItem_Inr_iff [of Format] by auto
    then have "\<And>channel. \<exists>ch. appendItems Format channel (Feed.Items f) = Inr ch"
      by (rule appendItems_total)
    with l show "\<exists>ch. AmazonRssFeed Format (Some \<lparr>AmazonRss.Feed = Some f\<rparr>) = Inr ch"
      by (simp add: AmazonRssFeed_def Let_def)
  qed
next
  show "(\<exists>x. newAmazonRssItem Format (Some i) = Inr x) \<longleftrightarrow> Item.Link i \<noteq> None"
    using newAmazonRssItem_Inr_iff [of Format "Some i"] by auto
qed

theorem completes_iff_links_present_witness:
  "Feed.Author scenarioFeed = None \<and> Feed.Image scenarioFeed = None \<and>
   Item.Source scenarioItem = None \<and> Item.Author scenarioItem = None \<and>
   Item.Enclosure scenarioItem = None \<and>
   Feed.Link scenarioFeed \<noteq> None \<and> Feed.Items scenarioFeed = [Some scenarioItem] \<and>
   Item.Link scenarioItem \<noteq> None \<and>
   (\<exists>ch. AmazonRssFeed exampleFormat (Some \<lparr>AmazonRss.Feed = Some scenarioFeed\<rparr>) = Inr ch) \<and>
   (\<exists>x. newAmazonRssItem exampleFormat (Some scenarioItem) = Inr x)"
proof -
  have absent: "Feed.Author scenarioFeed = None \<and> Feed.Image scenarioFeed = None \<and>
      Item.Source scenarioItem = None \<and> Item.Author scenarioItem = None \<and>
      Item.Enclosure scenarioItem = None"
    by (simp add: scenarioFeed_def scenarioItem_def)
  have links: "Feed.Link scenarioFeed \<noteq> None \<and>
      Feed.Items scenarioFeed = [Some scenarioItem] \<and> Item.Link scenarioItem \<noteq> None"
    by (simp add: scenarioFeed_def scenarioItem_def)
  note iff = completes_iff_links_present [of exampleFormat scenarioFeed scenarioItem]
  from iff links
  have "\<exists>ch. AmazonRssFeed exampleFormat (Some \<lparr>AmazonRss.Feed = Some scenarioFeed\<rparr>) = Inr ch"
    by simp
  moreover from iff links
  have "\<exists>x. newAmazonRssItem exampleFormat (Some scenarioItem) = Inr x"
    by simp
  ultimately show ?thesis using absent links by simp
qed

text \<open>
  C10. For every feed, the channel's \<open>Language\<close>, \<open>WebMaster\<close>, \<open>Category\<close>,
  \<open>Generator\<close>, \<open>Docs\<close>, \<open>Cloud\<close>, \<open>Ttl\<close>, \<open>Rating\<close>, \<open>SkipHours\<close>, \<open>SkipDays\<close> and
  \<open>TextInput\<close> hold their zero values, and for every input item the produced item's
  \<open>Category\<close>, \<open>Comments\<close> and \<open>Creator\<close> are the empty string.
\<close>

theorem unset_fields_hold_zero_values:
  "(AmazonRssFeed Format (Some \<lparr>AmazonRss.Feed = Some f\<rparr>) = Inr ch \<longrightarrow>
      Language ch = '''' \<and> WebMaster ch = '''' \<and> AmazonRssFeed.Category ch = '''' \<and>
      Generator ch = '''' \<and> Docs ch = '''' \<and> Cloud ch = '''' \<and> Ttl ch = 0 \<and>
      Rating ch = '''' \<and> SkipHours ch = '''' \<and> SkipDays ch = '''' \<and>
      TextInput ch = None) \<and>
   (newAmazonRssItem Format p = Inr x \<longrightarrow>
      AmazonRssItem.Category x = '''' \<and> Comments x = '''' \<and> Creator x = '''')"
proof (intro conjI impI)
  assume run: "AmazonRssFeed Format (Some \<lparr>AmazonRss.Feed = Some f\<rparr>) = Inr ch"
  from AmazonRssFeed_Inr [OF run] show "Language ch = ''''" "WebMaster ch = ''''"
    "AmazonRssFeed.Category ch = ''''" "Generator ch = ''''" "Docs ch = ''''"
    "Cloud ch = ''''" "Ttl ch = 0" "Rating ch = ''''" "SkipHours ch = ''''"
    "SkipDays ch = ''''" "TextInput ch = None"
    by auto
next
  assume item: "newAmazonRssItem Format p = Inr x"
  from newAmazonRssItem_Inr [OF item]
  show "AmazonRssItem.Category x = ''''" "Comments x = ''''" "Creator x = ''''"
    by auto
qed

theorem unset_fields_hold_zero_values_witness:
  "\<exists>ch x. AmazonRssFeed exampleFormat (Some \<lparr>AmazonRss.Feed = Some fullFeed\<rparr>) = Inr ch \<and>
      Language ch = '''' \<and> WebMaster ch = '''' \<and> AmazonRssFeed.Category ch = '''' \<and>
      Generator ch = '''' \<and> Docs ch = '''' \<and> Cloud ch = '''' \<and> Ttl ch = 0 \<and>
      Rating ch = '''' \<and> SkipHours ch = '''' \<and> SkipDays ch = '''' \<and>
      TextInput ch = None \<and>
      newAmazonRssItem exampleFormat (Some fullItem) = Inr x \<and>
      AmazonRssItem.Category x = '''' \<and> Comments x = '''' \<and> Creator x = ''''"
proof -
  obtain ch where ch:
    "AmazonRssFeed exampleFormat (Some \<lparr>AmazonRss.Feed = Some fullFeed\<rparr>) = Inr ch"
    using fullFeed_runs by blast
  obtain x where x: "newAmazonRssItem exampleFormat (Some fullItem) = Inr x"
    using fullItem_runs by blast
  from unset_fields_hold_zero_values [of exampleFormat fullFeed ch "Some fullItem" x] ch x
  show ?thesis by blast
qed


end
